theory Spec2Isabelle
  imports Complex_Main
begin

section \<open>Data model of the timeline store\<close>

text \<open>
  The timeline engine works on plain JavaScript objects. Times, durations and zoom levels
  are JavaScript numbers, that is doubles. A finite double is the real number it denotes,
  so the numbers stored in elements, words and the ghost are reals; what the arithmetic
  of doubles does to them is the subject of the section on JavaScript numbers. A property
  that may be absent (\<open>undefined\<close> or \<open>null\<close>) is an \<open>option\<close>.
\<close>

record time_frame =
  tf_start :: real
  tf_end :: real

record timed_word =
  w_text :: string
  w_start :: real
  w_end :: real

text \<open>
  \<open>words\<close> is \<open>Some ws\<close> exactly when the property holds an array; a missing or
  non-array value is \<open>None\<close> (the text adjustment tests \<open>Array.isArray\<close>).
\<close>

record properties =
  sourceStartTime :: "real option"
  sourceDuration :: "real option"
  words :: "timed_word list option"

record element =
  el_id :: string
  el_type :: string
  timeFrame :: time_frame
  row :: "int option"
  properties :: "properties option"

record ghost_element =
  ghost_type :: string
  duration :: real
  ghost_timeFrame :: time_frame
  ghost_row :: "int option"

record 'f ghostState =
  isFileDragging :: bool
  fileData :: "'f option"
  fileGhostElement :: "ghost_element option"
  ghostMarkerPosition :: "real option"
  dragOverRowIndex :: "int option"
  isIncompatibleRow :: bool

record 'f store =
  editorElements :: "element list"
  ghostState :: "'f ghostState"

section \<open>JavaScript helpers\<close>

text \<open>\<open>x || d\<close> on a number: the default is taken when \<open>x\<close> is missing or zero.\<close>

definition or_default :: "real option \<Rightarrow> real \<Rightarrow> real" where
  "or_default x d = (case x of None \<Rightarrow> d | Some v \<Rightarrow> if v = 0 then d else v)"

text \<open>\<open>{...p}\<close> on a properties object that may be missing: spreading nothing gives
  the empty object.\<close>

definition spread :: "properties option \<Rightarrow> properties" where
  "spread p = (case p of
       None \<Rightarrow> \<lparr>sourceStartTime = None, sourceDuration = None, words = None\<rparr>
     | Some q \<Rightarrow> q)"

text \<open>\<open>Array.prototype.findIndex\<close>: the first index whose entry satisfies the test,
  \<open>-1\<close> when there is none.\<close>

fun findIndex :: "('a \<Rightarrow> bool) \<Rightarrow> 'a list \<Rightarrow> int" where
  "findIndex P [] = -1"
| "findIndex P (x # xs) =
     (if P x then 0 else (let i = findIndex P xs in if i < 0 then -1 else i + 1))"

text \<open>\<open>xs.splice(i, 0, ...items)\<close>: insertion before index \<open>i\<close>; a negative index counts
  from the end and every index is clamped to the array.\<close>

definition splice_insert :: "'a list \<Rightarrow> int \<Rightarrow> 'a list \<Rightarrow> 'a list" where
  "splice_insert xs i items =
     (let n = int (length xs);
          k = nat (if i < 0 then max (n + i) 0 else min i n)
      in take k xs @ items @ drop k xs)"

section \<open>JavaScript numbers\<close>

text \<open>
  An arithmetic operation on doubles gives the exact result rounded to the nearest
  double, ties to the even significand. \<open>round_double\<close> is that rounding: a double has
  53 significant bits, so a number of magnitude in \<open>[2^e, 2^(e+1))\<close> is rounded to a
  multiple of \<open>2^(e-52)\<close>; below \<open>2^(-1022)\<close> the spacing stays \<open>2^(-1074)\<close>.
  Magnitudes beyond the largest double, which round to an infinity, are outside the
  model.
\<close>

definition pow2 :: "int \<Rightarrow> real" where
  "pow2 k = (if 0 \<le> k then 2 ^ nat k else 1 / 2 ^ nat (- k))"

definition round_half_even :: "real \<Rightarrow> int" where
  "round_half_even x =
     (let n = \<lfloor>x\<rfloor>; r = x - of_int n
      in if r < 1 / 2 then n else if 1 / 2 < r then n + 1
         else if even n then n else n + 1)"

definition binade :: "real \<Rightarrow> int" where
  "binade x = \<lfloor>log 2 \<bar>x\<bar>\<rfloor>"

definition round_double :: "real \<Rightarrow> real" where
  "round_double x =
     (if x = 0 then 0
      else (let e = max (binade x) (- 1022); ulp = pow2 (e - 52)
            in of_int (round_half_even (x / ulp)) * ulp))"

text \<open>
  The functions of the cut take the rounding as their first argument \<open>fl\<close> and apply
  it to the result of every \<open>+\<close>, \<open>-\<close>, \<open>*\<close> and \<open>/\<close> of the source. With
  \<open>round_double\<close> they compute what the program computes. With \<open>exact\<close>, no
  rounding at all, they compute over the reals: that is the reading in which a property
  is stated up to floating rounding.
\<close>

definition exact :: "real \<Rightarrow> real" where
  "exact x = x"

text \<open>
  A number that may be \<open>NaN\<close>: the value a caller passes as the cut time. A comparison
  with \<open>NaN\<close> on either side is false.
\<close>

datatype js_number =
  Num real
| NaN

fun js_le :: "js_number \<Rightarrow> js_number \<Rightarrow> bool" where
  "js_le (Num x) (Num y) = (x \<le> y)"
| "js_le a b = False"

fun js_ge :: "js_number \<Rightarrow> js_number \<Rightarrow> bool" where
  "js_ge (Num x) (Num y) = (x \<ge> y)"
| "js_ge a b = False"

section \<open>Cutting an element\<close>

text \<open>The two early returns of \<open>cutTimelineElement\<close>, each with the data its warning
  prints.\<close>

datatype cut_warning =
  ElementNotFound string
| CutTimeOutOfRange js_number real real

definition adjustMediaElementForCut ::
  "(real \<Rightarrow> real) \<Rightarrow> element \<Rightarrow> element \<Rightarrow> element \<Rightarrow> real \<Rightarrow> real \<Rightarrow>
   element \<times> element" where
  "adjustMediaElementForCut fl firstClip secondClip originalElement cutPosition
     elementDuration =
     (if el_type originalElement = ''image'' \<or> el_type originalElement = ''imageUrl''
      then (firstClip, secondClip)
      else (case properties originalElement of
          None \<Rightarrow> (firstClip, secondClip)
        | Some op \<Rightarrow>
            (let originalSourceTime = or_default (sourceStartTime op) 0;
                 srcDuration = or_default (sourceDuration op) elementDuration;
                 sourceTimeAtCut =
                   fl (originalSourceTime +
                       fl (fl (cutPosition / elementDuration) * srcDuration))
             in (firstClip\<lparr>properties := Some ((spread (properties firstClip))
                     \<lparr>sourceStartTime := Some originalSourceTime,
                      sourceDuration := Some (fl (sourceTimeAtCut - originalSourceTime))\<rparr>)\<rparr>,
                 secondClip\<lparr>properties := Some ((spread (properties secondClip))
                     \<lparr>sourceStartTime := Some sourceTimeAtCut,
                      sourceDuration :=
                        Some (fl (srcDuration -
                                  fl (sourceTimeAtCut - originalSourceTime)))\<rparr>)\<rparr>))))"

definition adjustAudioElementForCut ::
  "(real \<Rightarrow> real) \<Rightarrow> element \<Rightarrow> element \<Rightarrow> element \<Rightarrow> real \<Rightarrow> real \<Rightarrow>
   element \<times> element" where
  "adjustAudioElementForCut fl firstClip secondClip originalElement cutPosition
     elementDuration =
     (case properties originalElement of
          None \<Rightarrow> (firstClip, secondClip)
        | Some op \<Rightarrow>
            (let originalSourceTime = or_default (sourceStartTime op) 0
             in (firstClip\<lparr>properties := Some ((spread (properties firstClip))
                     \<lparr>sourceStartTime := Some originalSourceTime\<rparr>)\<rparr>,
                 secondClip\<lparr>properties := Some ((spread (properties secondClip))
                     \<lparr>sourceStartTime := Some (fl (originalSourceTime + cutPosition))\<rparr>)\<rparr>)))"

definition adjustTextElementForCut ::
  "(real \<Rightarrow> real) \<Rightarrow> element \<Rightarrow> element \<Rightarrow> element \<Rightarrow> real \<Rightarrow> real \<Rightarrow>
   element \<times> element" where
  "adjustTextElementForCut fl firstClip secondClip originalElement cutPosition
     elementDuration =
     (case properties originalElement of
          None \<Rightarrow> (firstClip, secondClip)
        | Some op \<Rightarrow>
           (case words op of
              None \<Rightarrow> (firstClip, secondClip)
            | Some ws \<Rightarrow>
               (let elementStart = tf_start (timeFrame originalElement);
                    cutTimeAbsolute = fl (elementStart + cutPosition);
                    firstWords = filter (\<lambda>w. w_end w \<le> cutTimeAbsolute) ws;
                    secondWords =
                      map (\<lambda>w. w\<lparr>w_start := fl (w_start w - cutPosition),
                                  w_end := fl (w_end w - cutPosition)\<rparr>)
                        (filter (\<lambda>w. w_start w \<ge> cutTimeAbsolute) ws)
                in (firstClip\<lparr>properties := Some ((spread (properties firstClip))
                        \<lparr>words := Some (if length firstWords > 0 then firstWords else [])\<rparr>)\<rparr>,
                    secondClip\<lparr>properties := Some ((spread (properties secondClip))
                        \<lparr>words :=
                           Some (if length secondWords > 0 then secondWords else [])\<rparr>)\<rparr>))))"

definition adjustElementPropertiesForCut ::
  "(real \<Rightarrow> real) \<Rightarrow> element \<Rightarrow> element \<Rightarrow> element \<Rightarrow> real \<Rightarrow> string \<Rightarrow>
   element \<times> element" where
  "adjustElementPropertiesForCut fl firstClip secondClip originalElement cutTime elementType =
     (let elementDuration =
            fl (tf_end (timeFrame originalElement) - tf_start (timeFrame originalElement));
          cutPosition = fl (cutTime - tf_start (timeFrame originalElement))
      in if elementType = ''video'' \<or> elementType = ''imageUrl'' \<or> elementType = ''image''
         then adjustMediaElementForCut fl firstClip secondClip originalElement
                cutPosition elementDuration
         else if elementType = ''audio''
         then adjustAudioElementForCut fl firstClip secondClip originalElement
                cutPosition elementDuration
         else if elementType = ''text''
         then adjustTextElementForCut fl firstClip secondClip originalElement
                cutPosition elementDuration
         else (firstClip, secondClip))"

text \<open>
  The two clips that \<open>cutTimelineElement\<close> builds from the element it found, after the
  adjustment by type. The deep clone through JSON is the identity on the values of the
  model; \<open>newId\<close> is the identifier that \<open>uuidv4()\<close> returns.
\<close>

definition cutClips ::
  "(real \<Rightarrow> real) \<Rightarrow> element \<Rightarrow> real \<Rightarrow> string \<Rightarrow> element \<times> element" where
  "cutClips fl element cutTime newId =
     (let tf = timeFrame element;
          firstClip = element\<lparr>el_id := el_id element,
                        timeFrame := \<lparr>tf_start = tf_start tf, tf_end = cutTime\<rparr>\<rparr>;
          secondClip = element\<lparr>el_id := newId,
                        timeFrame := \<lparr>tf_start = cutTime, tf_end = tf_end tf\<rparr>\<rparr>
      in adjustElementPropertiesForCut fl firstClip secondClip element cutTime
           (el_type element))"

text \<open>
  The lookup and the range test that open \<open>cutTimelineElement\<close>, on whatever number the
  caller passes as the cut time: the warning of the early return taken, or the element
  that the function goes on to cut.
\<close>

definition cutTimelineElement_checks ::
  "'f store \<Rightarrow> string \<Rightarrow> js_number \<Rightarrow> cut_warning + element" where
  "cutTimelineElement_checks store elementId cutTime =
     (case find (\<lambda>el. el_id el = elementId) (editorElements store) of
        None \<Rightarrow> Inl (ElementNotFound elementId)
      | Some element \<Rightarrow>
         (let tf = timeFrame element
          in if js_le cutTime (Num (tf_start tf)) \<or> js_ge cutTime (Num (tf_end tf))
             then Inl (CutTimeOutOfRange cutTime (tf_start tf) (tf_end tf))
             else Inr element))"

text \<open>
  \<open>cutTimelineElement\<close> for a cut time that is a number other than \<open>NaN\<close>. The
  store's methods \<open>setSelectedElement\<close> and \<open>refreshElements\<close> are not among the
  source files; they are parameters of the model, applied in the order of the source
  after the element list has been assigned. The result is the warning of an early return,
  if any, and the store as the call leaves it. A \<open>NaN\<close> that passes the checks would
  put \<open>NaN\<close> into the time frames of the clips, which the reals of the store cannot
  hold; that call is followed as far as the checks.
\<close>

definition cutTimelineElement ::
  "(real \<Rightarrow> real) \<Rightarrow> (element option \<Rightarrow> 'f store \<Rightarrow> 'f store) \<Rightarrow> ('f store \<Rightarrow> 'f store) \<Rightarrow>
   'f store \<Rightarrow> string \<Rightarrow> real \<Rightarrow> string \<Rightarrow> cut_warning option \<times> 'f store" where
  "cutTimelineElement fl setSelectedElement refreshElements store elementId cutTime newId =
     (case cutTimelineElement_checks store elementId (Num cutTime) of
        Inl warning \<Rightarrow> (Some warning, store)
      | Inr element \<Rightarrow>
         (let (firstClip, secondClip) = cutClips fl element cutTime newId;
              updatedElements =
                filter (\<lambda>el. el_id el \<noteq> elementId) (editorElements store);
              elementIndex =
                findIndex (\<lambda>el. el_id el = elementId) (editorElements store);
              updatedElements' =
                splice_insert updatedElements elementIndex [firstClip, secondClip]
          in (None,
              refreshElements (setSelectedElement None
                (store\<lparr>editorElements := updatedElements'\<rparr>)))))"

section \<open>The ghost of a dragged file\<close>

text \<open>
  How a call of a caller-supplied function ends: it returns, or it throws. Either way the
  store is left as the function's assignments made it, so both carry a store. The commit
  callback of \<open>finishFileGhostDragUtil\<close> closes over the store and may change any part
  of it; in the model it takes the store and gives the store back.
\<close>

datatype 's completion =
  Returns 's
| Throws string 's

fun final_store :: "'s completion \<Rightarrow> 's" where
  "final_store (Returns s) = s"
| "final_store (Throws e s) = s"

fun has_thrown :: "'s completion \<Rightarrow> bool" where
  "has_thrown (Returns s) = False"
| "has_thrown (Throws e s) = True"

definition startFileGhostDragUtil :: "'f store \<Rightarrow> 'f \<Rightarrow> string \<Rightarrow> real \<Rightarrow> 'f store" where
  "startFileGhostDragUtil store file elementType defaultDuration =
     store\<lparr>ghostState := (ghostState store)
       \<lparr>isFileDragging := True,
        fileData := Some file,
        fileGhostElement := Some
          \<lparr>ghost_type = elementType,
           duration = defaultDuration,
           ghost_timeFrame = \<lparr>tf_start = 0, tf_end = defaultDuration\<rparr>,
           ghost_row = None\<rparr>\<rparr>\<rparr>"

definition updateFileGhostUtil :: "'f store \<Rightarrow> real \<Rightarrow> int \<Rightarrow> bool \<Rightarrow> 'f store" where
  "updateFileGhostUtil store newPosition rowIndex isIncompatible =
     (if \<not> isFileDragging (ghostState store) \<or> fileGhostElement (ghostState store) = None
      then store
      else
       (let gs = (ghostState store)
              \<lparr>ghostMarkerPosition := Some newPosition,
               dragOverRowIndex := Some rowIndex,
               isIncompatibleRow := isIncompatible\<rparr>;
            gs' = (case fileGhostElement gs of
                None \<Rightarrow> gs
              | Some g \<Rightarrow> gs\<lparr>fileGhostElement := Some
                  (g\<lparr>ghost_row := Some rowIndex,
                     ghost_timeFrame :=
                       \<lparr>tf_start = newPosition, tf_end = newPosition + duration g\<rparr>\<rparr>)\<rparr>)
        in store\<lparr>ghostState := gs'\<rparr>))"

text \<open>The sum that gives the end of the candidate's time frame above is the exact one;
  nothing stated about the ghost below depends on its rounding.

  The six assignments under \<open>// Reset state\<close>.\<close>

definition resetGhost :: "'f store \<Rightarrow> 'f store" where
  "resetGhost store =
     store\<lparr>ghostState := (ghostState store)
       \<lparr>isFileDragging := False,
        fileGhostElement := None,
        fileData := None,
        ghostMarkerPosition := None,
        dragOverRowIndex := None,
        isIncompatibleRow := False\<rparr>\<rparr>"

text \<open>
  \<open>callback\<close> is \<open>None\<close> when the argument is missing or is not a function. There is
  no \<open>try\<close> around the call: when the callback throws, the exception leaves
  \<open>finishFileGhostDragUtil\<close> and the assignments after the call are not reached.
\<close>

definition finishFileGhostDragUtil ::
  "'f store \<Rightarrow> real \<Rightarrow> int \<Rightarrow> (real \<Rightarrow> int \<Rightarrow> 'f store \<Rightarrow> 'f store completion) option \<Rightarrow>
   'f store completion" where
  "finishFileGhostDragUtil store finalPosition rowIndex callback =
     (if \<not> isFileDragging (ghostState store) then Returns store
      else
       (case (case callback of
                None \<Rightarrow> Returns store
              | Some cb \<Rightarrow> cb finalPosition rowIndex store) of
          Throws e s \<Rightarrow> Throws e s
        | Returns s \<Rightarrow> Returns (resetGhost s)))"

text \<open>A gesture on the ghost, and a sequence of gestures run one after the other. Each
  gesture is its own call from the event layer: an exception thrown by a commit callback
  ends that call only, and the next gesture finds the store as the failed call left it.\<close>

datatype 'f ghost_op =
  StartDrag 'f string real
| UpdatePosition real int bool
| FinishDrag real int "(real \<Rightarrow> int \<Rightarrow> 'f store \<Rightarrow> 'f store completion) option"

fun ghost_step :: "'f store \<Rightarrow> 'f ghost_op \<Rightarrow> 'f store" where
  "ghost_step store (StartDrag file elementType defaultDuration) =
     startFileGhostDragUtil store file elementType defaultDuration"
| "ghost_step store (UpdatePosition newPosition rowIndex isIncompatible) =
     updateFileGhostUtil store newPosition rowIndex isIncompatible"
| "ghost_step store (FinishDrag finalPosition rowIndex callback) =
     final_store (finishFileGhostDragUtil store finalPosition rowIndex callback)"

fun ghost_run :: "'f store \<Rightarrow> 'f ghost_op list \<Rightarrow> 'f store" where
  "ghost_run store [] = store"
| "ghost_run store (g # gs) = ghost_run (ghost_step store g) gs"

text \<open>\<open>callback_keeps_elements g\<close>: the gesture \<open>g\<close> carries no commit callback, or
  one that leaves the element list as it finds it on every call, however the call ends.\<close>

fun callback_keeps_elements :: "'f ghost_op \<Rightarrow> bool" where
  "callback_keeps_elements (FinishDrag finalPosition rowIndex (Some cb)) =
     (\<forall>p r s. editorElements (final_store (cb p r s)) = editorElements s)"
| "callback_keeps_elements g = True"

section \<open>Zoom\<close>













section \<open>Reading a clip\<close>

text \<open>\<open>clip.properties.sourceStartTime\<close>, \<open>clip.properties.sourceDuration\<close> and
  \<open>clip.properties.words\<close>; \<open>None\<close> when the properties or the field are missing.\<close>

definition clipSourceStartTime :: "element \<Rightarrow> real option" where
  "clipSourceStartTime clip =
     (case properties clip of None \<Rightarrow> None | Some p \<Rightarrow> sourceStartTime p)"

definition clipSourceDuration :: "element \<Rightarrow> real option" where
  "clipSourceDuration clip =
     (case properties clip of None \<Rightarrow> None | Some p \<Rightarrow> sourceDuration p)"

definition clipWords :: "element \<Rightarrow> timed_word list option" where
  "clipWords clip = (case properties clip of None \<Rightarrow> None | Some p \<Rightarrow> words p)"

text \<open>A word moved to the second clip: both ends shifted left by the cut position.\<close>

definition shiftWord :: "(real \<Rightarrow> real) \<Rightarrow> real \<Rightarrow> timed_word \<Rightarrow> timed_word" where
  "shiftWord fl cutPosition w =
     w\<lparr>w_start := fl (w_start w - cutPosition), w_end := fl (w_end w - cutPosition)\<rparr>"

section \<open>Example data\<close>

text \<open>The video and the subtitle of the specification's testable properties, an audio
  clip of the same shape, a subtitle with a word of no length, a subtitle with fractional
  times, a store that holds them, and a store in the middle of a file drag with two
  commit callbacks. \<open>d0_3\<close> and \<open>d0_9\<close> are the doubles that JavaScript reads from
  the literals \<open>0.3\<close> and \<open>0.9\<close>.
  \<open>keepSelection\<close> and \<open>noRefresh\<close> take the place of the two store methods in the
  examples; they leave the store as it is.\<close>

definition video_example :: element where
  "video_example =
     \<lparr>el_id = ''v1'', el_type = ''video'',
      timeFrame = \<lparr>tf_start = 0, tf_end = 10000\<rparr>, row = Some 0,
      properties = Some \<lparr>sourceStartTime = Some 0, sourceDuration = Some 10000,
                         words = None\<rparr>\<rparr>"

definition audio_example :: element where
  "audio_example =
     \<lparr>el_id = ''a1'', el_type = ''audio'',
      timeFrame = \<lparr>tf_start = 0, tf_end = 10000\<rparr>, row = Some 1,
      properties = Some \<lparr>sourceStartTime = Some 0, sourceDuration = Some 10000,
                         words = None\<rparr>\<rparr>"

definition text_example :: element where
  "text_example =
     \<lparr>el_id = ''t1'', el_type = ''text'',
      timeFrame = \<lparr>tf_start = 0, tf_end = 3500\<rparr>, row = Some 2,
      properties = Some \<lparr>sourceStartTime = None, sourceDuration = None,
         words = Some [\<lparr>w_text = ''one'', w_start = 0, w_end = 1000\<rparr>,
                       \<lparr>w_text = ''two'', w_start = 1000, w_end = 2000\<rparr>,
                       \<lparr>w_text = ''three'', w_start = 2500, w_end = 3500\<rparr>]\<rparr>\<rparr>"

definition pause_example :: element where
  "pause_example =
     \<lparr>el_id = ''t2'', el_type = ''text'',
      timeFrame = \<lparr>tf_start = 0, tf_end = 3500\<rparr>, row = Some 2,
      properties = Some \<lparr>sourceStartTime = None, sourceDuration = None,
         words = Some [\<lparr>w_text = ''one'', w_start = 0, w_end = 1000\<rparr>,
                       \<lparr>w_text = ''-'', w_start = 2200, w_end = 2200\<rparr>,
                       \<lparr>w_text = ''three'', w_start = 2500, w_end = 3500\<rparr>]\<rparr>\<rparr>"

definition d0_3 :: real where
  "d0_3 = 5404319552844595 / 18014398509481984"

definition d0_9 :: real where
  "d0_9 = 8106479329266893 / 9007199254740992"

definition boundary_example :: element where
  "boundary_example =
     \<lparr>el_id = ''t3'', el_type = ''text'',
      timeFrame = \<lparr>tf_start = d0_3, tf_end = 2\<rparr>, row = Some 2,
      properties = Some \<lparr>sourceStartTime = None, sourceDuration = None,
         words = Some [\<lparr>w_text = ''late'', w_start = d0_9, w_end = 3 / 2\<rparr>]\<rparr>\<rparr>"

definition idle_ghost :: "string ghostState" where
  "idle_ghost =
     \<lparr>isFileDragging = False, fileData = None, fileGhostElement = None,
      ghostMarkerPosition = None, dragOverRowIndex = None, isIncompatibleRow = False\<rparr>"

definition store_example :: "string store" where
  "store_example =
     \<lparr>editorElements = [video_example, audio_example, text_example],
      ghostState = idle_ghost\<rparr>"

definition dragging_example :: "string store" where
  "dragging_example =
     updateFileGhostUtil
       (startFileGhostDragUtil store_example ''intro.mp4'' ''video'' 5000) 1200 0 False"

definition failingCommit :: "real \<Rightarrow> int \<Rightarrow> string store \<Rightarrow> string store completion" where
  "failingCommit finalPosition rowIndex store = Throws ''upload failed'' store"

definition appendingCommit :: "real \<Rightarrow> int \<Rightarrow> string store \<Rightarrow> string store completion" where
  "appendingCommit finalPosition rowIndex store =
     Returns (store\<lparr>editorElements := editorElements store @
        [\<lparr>el_id = ''v2'', el_type = ''video'',
          timeFrame = \<lparr>tf_start = finalPosition, tf_end = finalPosition + 5000\<rparr>,
          row = Some rowIndex, properties = None\<rparr>]\<rparr>)"

definition keepSelection :: "element option \<Rightarrow> string store \<Rightarrow> string store" where
  "keepSelection selected store = store"

definition noRefresh :: "string store \<Rightarrow> string store" where
  "noRefresh store = store"

section \<open>Lookup and replacement in the element list\<close>

lemma find_None_iff_ids: "(find (\<lambda>el. el_id el = i) xs = None) = (\<forall>el \<in> set xs. el_id el \<noteq> i)"
  by (auto simp: find_None_iff)

lemma findIndex_neg_iff:
  "- 1 \<le> findIndex P xs \<and> (findIndex P xs < 0) = (\<forall>x \<in> set xs. \<not> P x)"
  by (induction xs) (auto simp: Let_def)

lemma findIndex_nonneg: "\<exists>x \<in> set xs. P x \<Longrightarrow> 0 \<le> findIndex P xs"
  using findIndex_neg_iff [of P xs] by auto

lemma findIndex_takeWhile:
  "\<exists>x \<in> set xs. P x \<Longrightarrow> findIndex P xs = int (length (takeWhile (\<lambda>x. \<not> P x) xs))"
proof (induction xs)
  case Nil
  then show ?case by simp
next
  case (Cons a xs)
  show ?case
  proof (cases "P a")
    case True
    then show ?thesis by simp
  next
    case False
    with Cons.prems have ex: "\<exists>x \<in> set xs. P x" by auto
    from findIndex_nonneg [OF ex] Cons.IH [OF ex] False show ?thesis
      by (simp add: Let_def)
  qed
qed

lemma findIndex_none: "\<forall>x \<in> set xs. \<not> P x \<Longrightarrow> findIndex P xs = -1"
  by (induction xs) (auto simp: Let_def)

lemma filter_split_takeWhile:
  "filter Q xs = takeWhile Q xs @ filter Q (dropWhile Q xs)"
  by (induction xs) auto

lemma replace_in_place:
  assumes "\<exists>x \<in> set xs. P x"
  shows "splice_insert (filter (\<lambda>x. \<not> P x) xs) (findIndex P xs) items =
         takeWhile (\<lambda>x. \<not> P x) xs @ items @ filter (\<lambda>x. \<not> P x) (dropWhile (\<lambda>x. \<not> P x) xs)"
proof -
  let ?Q = "\<lambda>x. \<not> P x"
  have idx: "findIndex P xs = int (length (takeWhile ?Q xs))"
    using assms by (rule findIndex_takeWhile)
  have split: "filter ?Q xs = takeWhile ?Q xs @ filter ?Q (dropWhile ?Q xs)"
    by (rule filter_split_takeWhile)
  have len: "length (takeWhile ?Q xs) \<le> length (filter ?Q xs)"
    by (metis split length_append le_add1)
  have "take (length (takeWhile ?Q xs)) (filter ?Q xs) = takeWhile ?Q xs"
    by (subst split) simp
  moreover have "drop (length (takeWhile ?Q xs)) (filter ?Q xs) = filter ?Q (dropWhile ?Q xs)"
    by (subst split) simp
  ultimately show ?thesis
    using len by (simp add: splice_insert_def idx Let_def min_def)
qed

lemma find_Some_member: "find P xs = Some x \<Longrightarrow> x \<in> set xs \<and> P x"
  by (induction xs) (auto split: if_splits)

lemma find_unique_id:
  "distinct (map el_id xs) \<Longrightarrow> e \<in> set xs \<Longrightarrow> find (\<lambda>el. el_id el = el_id e) xs = Some e"
  by (induction xs) (auto simp: rev_image_eqI)

section \<open>Rounding to a double\<close>

lemma pow2_powr: "pow2 k = 2 powr (of_int k)"
  by (simp add: pow2_def powr_int)

lemma pow2_pos: "0 < pow2 k"
  by (simp add: pow2_def)

lemma binade_eqI:
  assumes "pow2 e \<le> \<bar>x\<bar>" and "\<bar>x\<bar> < pow2 (e + 1)"
  shows "binade x = e"
proof -
  have pos: "0 < \<bar>x\<bar>" using assms(1) pow2_pos [of e] by linarith
  have "of_int e \<le> log 2 \<bar>x\<bar>"
    using assms(1) pos by (simp add: le_log_iff pow2_powr)
  moreover have "log 2 \<bar>x\<bar> < of_int e + 1"
    using assms(2) pos by (simp add: log_less_iff pow2_powr)
  ultimately show ?thesis
    unfolding binade_def by (rule floor_unique)
qed

text \<open>The rounding of a number whose binade is known.\<close>

lemma round_double_at:
  assumes "pow2 e \<le> \<bar>x\<bar>" and "\<bar>x\<bar> < pow2 (e + 1)" and "- 1022 \<le> e"
  shows "round_double x = of_int (round_half_even (x / pow2 (e - 52))) * pow2 (e - 52)"
proof -
  have "x \<noteq> 0" using assms(1) pow2_pos [of e] by auto
  moreover have "binade x = e" using assms(1,2) by (rule binade_eqI)
  ultimately show ?thesis using assms(3) by (simp add: round_double_def Let_def max_def)
qed

lemma round_half_even_of_int: "round_half_even (of_int k) = k"
  by (simp add: round_half_even_def)

lemma round_double_zero: "round_double 0 = 0"
  by (simp add: round_double_def)

text \<open>An integer below \<open>2^53\<close> in magnitude is a double: rounding leaves it as it is.\<close>

lemma round_double_int:
  assumes "x \<in> \<int>" and "\<bar>x\<bar> < 9007199254740992"
  shows "round_double x = x"
proof (cases "x = 0")
  case True
  then show ?thesis by (simp add: round_double_def)
next
  case False
  from assms(1) obtain n where n: "x = of_int n" by (auto elim: Ints_cases)
  with False have "n \<noteq> 0" by auto
  then have one: "1 \<le> \<bar>x\<bar>" using n by (simp flip: of_int_abs)
  have "of_int 0 \<le> log 2 \<bar>x\<bar>" using one by simp
  then have lo: "0 \<le> binade x" unfolding binade_def by (simp only: le_floor_iff)
  have "\<bar>x\<bar> < 2 powr 53" using assms(2) by (simp add: powr_numeral)
  then have "log 2 \<bar>x\<bar> < 53" using one by (simp add: log_less_iff)
  then have hi: "binade x \<le> 52"
    unfolding binade_def by (simp add: floor_less_iff flip: zle_add1_eq_le)
  define k where "k = nat (52 - binade x)"
  have ulp: "pow2 (max (binade x) (- 1022) - 52) = 1 / 2 ^ k"
    using lo hi by (auto simp: pow2_def k_def max_def)
  have "x / (1 / 2 ^ k) = of_int (n * 2 ^ k)" using n by simp
  then have rhe: "round_half_even (x / (1 / 2 ^ k)) = n * 2 ^ k"
    by (simp only: round_half_even_of_int)
  have "round_double x = of_int (round_half_even (x / (1 / 2 ^ k))) * (1 / 2 ^ k)"
    using False by (simp only: round_double_def Let_def ulp if_False)
  also have "\<dots> = of_int (n * 2 ^ k) * (1 / 2 ^ k)"
    by (simp only: rhe)
  also have "\<dots> = x"
    using n by simp
  finally show ?thesis .
qed

section \<open>The cut\<close>

lemma cutClips_timeFrames:
  "timeFrame (fst (cutClips fl element cutTime newId)) =
     \<lparr>tf_start = tf_start (timeFrame element), tf_end = cutTime\<rparr> \<and>
   timeFrame (snd (cutClips fl element cutTime newId)) =
     \<lparr>tf_start = cutTime, tf_end = tf_end (timeFrame element)\<rparr>"
  by (simp add: cutClips_def adjustElementPropertiesForCut_def adjustMediaElementForCut_def
      adjustAudioElementForCut_def adjustTextElementForCut_def Let_def split: option.splits)

lemma cutClips_ids:
  "el_id (fst (cutClips fl element cutTime newId)) = el_id element \<and>
   el_id (snd (cutClips fl element cutTime newId)) = newId"
  by (simp add: cutClips_def adjustElementPropertiesForCut_def adjustMediaElementForCut_def
      adjustAudioElementForCut_def adjustTextElementForCut_def Let_def split: option.splits)

lemma cut_success:
  assumes "find (\<lambda>el. el_id el = elementId) (editorElements store) = Some element"
    and "tf_start (timeFrame element) < cutTime" and "cutTime < tf_end (timeFrame element)"
  shows "cutTimelineElement fl setSelectedElement refreshElements store elementId cutTime
           newId =
     (None, refreshElements (setSelectedElement None
        (store\<lparr>editorElements :=
           takeWhile (\<lambda>el. el_id el \<noteq> elementId) (editorElements store) @
           [fst (cutClips fl element cutTime newId),
            snd (cutClips fl element cutTime newId)] @
           filter (\<lambda>el. el_id el \<noteq> elementId)
             (dropWhile (\<lambda>el. el_id el \<noteq> elementId) (editorElements store))\<rparr>)))"
proof -
  have ex: "\<exists>el \<in> set (editorElements store). el_id el = elementId"
    using find_Some_member [OF assms(1)] by blast
  show ?thesis
    using assms(2,3) replace_in_place [OF ex]
    by (simp add: cutTimelineElement_def cutTimelineElement_checks_def assms(1) Let_def
        split_beta)
qed


lemmas cut_defs = cutClips_def adjustElementPropertiesForCut_def adjustMediaElementForCut_def
  adjustAudioElementForCut_def adjustTextElementForCut_def or_default_def spread_def
  clipSourceStartTime_def clipSourceDuration_def clipWords_def exact_def

text \<open>
  C1. Let \<open>element\<close> be the element that the lookup by \<open>elementId\<close> finds in the store
  (where identifiers are unique, every element of the store is found by its own), and let
  \<open>cutTime\<close> lie strictly between its start and its end. Then, whatever the rounding of
  the arithmetic, the cut does not warn, and
  the element list it assigns has two clips in the place of the element: the first with
  the time frame from the original start to \<open>cutTime\<close>, the second from \<open>cutTime\<close>
  to the original end. The end of the first is the start of the second, the two half-open
  ranges together are the original range, and they do not overlap.
\<close>

theorem cut_timeFrames_adjacent:
  assumes "find (\<lambda>el. el_id el = elementId) (editorElements store) = Some element"
    and "tf_start (timeFrame element) < cutTime"
    and "cutTime < tf_end (timeFrame element)"
  shows "\<exists>firstClip secondClip.
      cutTimelineElement fl setSelectedElement refreshElements store elementId cutTime newId =
        (None, refreshElements (setSelectedElement None
           (store\<lparr>editorElements :=
              takeWhile (\<lambda>el. el_id el \<noteq> elementId) (editorElements store) @
              [firstClip, secondClip] @
              filter (\<lambda>el. el_id el \<noteq> elementId)
                (dropWhile (\<lambda>el. el_id el \<noteq> elementId) (editorElements store))\<rparr>))) \<and>
      timeFrame firstClip = \<lparr>tf_start = tf_start (timeFrame element), tf_end = cutTime\<rparr> \<and>
      timeFrame secondClip = \<lparr>tf_start = cutTime, tf_end = tf_end (timeFrame element)\<rparr> \<and>
      tf_end (timeFrame firstClip) = cutTime \<and>
      tf_start (timeFrame secondClip) = cutTime \<and>
      {tf_start (timeFrame firstClip)..<tf_end (timeFrame firstClip)} \<union>
        {tf_start (timeFrame secondClip)..<tf_end (timeFrame secondClip)} =
        {tf_start (timeFrame element)..<tf_end (timeFrame element)} \<and>
      {tf_start (timeFrame firstClip)..<tf_end (timeFrame firstClip)} \<inter>
        {tf_start (timeFrame secondClip)..<tf_end (timeFrame secondClip)} = {}"
proof -
  let ?f = "fst (cutClips fl element cutTime newId)"
  let ?s = "snd (cutClips fl element cutTime newId)"
  have tf: "timeFrame ?f = \<lparr>tf_start = tf_start (timeFrame element), tf_end = cutTime\<rparr>"
    "timeFrame ?s = \<lparr>tf_start = cutTime, tf_end = tf_end (timeFrame element)\<rparr>"
    using cutClips_timeFrames [of fl element cutTime newId] by simp_all
  have cover: "{tf_start (timeFrame element)..<cutTime} \<union> {cutTime..<tf_end (timeFrame element)} =
      {tf_start (timeFrame element)..<tf_end (timeFrame element)}"
    using assms(2,3) by (intro ivl_disj_un_two) simp_all
  have disj: "{tf_start (timeFrame element)..<cutTime} \<inter> {cutTime..<tf_end (timeFrame element)} = {}"
    by auto
  show ?thesis
    apply (rule exI [of _ ?f], rule exI [of _ ?s])
    using cut_success [OF assms, of fl] cover disj by (simp add: tf)
qed

theorem cut_timeFrames_adjacent_witness:
  "find (\<lambda>el. el_id el = ''v1'') (editorElements store_example) = Some video_example \<and>
   tf_start (timeFrame video_example) < 4000 \<and> 4000 < tf_end (timeFrame video_example) \<and>
   (\<exists>firstClip secondClip.
      cutTimelineElement round_double keepSelection noRefresh store_example ''v1'' 4000
          ''v1b'' =
        (None, noRefresh (keepSelection None
           (store_example\<lparr>editorElements :=
              takeWhile (\<lambda>el. el_id el \<noteq> ''v1'') (editorElements store_example) @
              [firstClip, secondClip] @
              filter (\<lambda>el. el_id el \<noteq> ''v1'')
                (dropWhile (\<lambda>el. el_id el \<noteq> ''v1'') (editorElements store_example))\<rparr>))) \<and>
      timeFrame firstClip = \<lparr>tf_start = tf_start (timeFrame video_example), tf_end = 4000\<rparr> \<and>
      timeFrame secondClip = \<lparr>tf_start = 4000, tf_end = tf_end (timeFrame video_example)\<rparr> \<and>
      tf_end (timeFrame firstClip) = 4000 \<and>
      tf_start (timeFrame secondClip) = 4000 \<and>
      {tf_start (timeFrame firstClip)..<tf_end (timeFrame firstClip)} \<union>
        {tf_start (timeFrame secondClip)..<tf_end (timeFrame secondClip)} =
        {tf_start (timeFrame video_example)..<tf_end (timeFrame video_example)} \<and>
      {tf_start (timeFrame firstClip)..<tf_end (timeFrame firstClip)} \<inter>
        {tf_start (timeFrame secondClip)..<tf_end (timeFrame secondClip)} = {})"
proof -
  have h1: "find (\<lambda>el. el_id el = ''v1'') (editorElements store_example) = Some video_example"
    by (simp add: store_example_def video_example_def)
  have h2: "tf_start (timeFrame video_example) < 4000"
    by (simp add: video_example_def)
  have h3: "4000 < tf_end (timeFrame video_example)"
    by (simp add: video_example_def)
  from cut_timeFrames_adjacent
    [OF h1 h2 h3, of round_double keepSelection noRefresh "''v1b''"] h1 h2 h3
  show ?thesis by blast
qed

text \<open>
  For a cut time that is a number other than \<open>NaN\<close> the two early returns do what
  their warnings say: when no element of the store has the identifier, and when the cut
  time is not strictly between the start and the end of the element found, the call
  returns with the warning and the store is the store it was given.
\<close>

lemma cut_rejects_number:
  "((\<forall>el \<in> set (editorElements store). el_id el \<noteq> elementId) \<longrightarrow>
      cutTimelineElement fl setSelectedElement refreshElements store elementId cutTime newId =
        (Some (ElementNotFound elementId), store)) \<and>
   (\<forall>element.
      find (\<lambda>el. el_id el = elementId) (editorElements store) = Some element \<and>
      \<not> (tf_start (timeFrame element) < cutTime \<and> cutTime < tf_end (timeFrame element)) \<longrightarrow>
      cutTimelineElement fl setSelectedElement refreshElements store elementId cutTime newId =
        (Some (CutTimeOutOfRange (Num cutTime)
           (tf_start (timeFrame element)) (tf_end (timeFrame element))), store))"
proof (intro conjI allI impI)
  assume "\<forall>el \<in> set (editorElements store). el_id el \<noteq> elementId"
  then have "find (\<lambda>el. el_id el = elementId) (editorElements store) = None"
    by (simp add: find_None_iff)
  then show "cutTimelineElement fl setSelectedElement refreshElements store elementId cutTime
        newId = (Some (ElementNotFound elementId), store)"
    by (simp add: cutTimelineElement_def cutTimelineElement_checks_def)
next
  fix element
  assume "find (\<lambda>el. el_id el = elementId) (editorElements store) = Some element \<and>
      \<not> (tf_start (timeFrame element) < cutTime \<and> cutTime < tf_end (timeFrame element))"
  then show "cutTimelineElement fl setSelectedElement refreshElements store elementId cutTime
        newId =
        (Some (CutTimeOutOfRange (Num cutTime)
           (tf_start (timeFrame element)) (tf_end (timeFrame element))), store)"
    by (auto simp: cutTimelineElement_def cutTimelineElement_checks_def Let_def)
qed

text \<open>
  C2, at a cut time that is \<open>NaN\<close>. \<open>NaN\<close> is not strictly between the start and
  the end of any element, and the claim has the cut rejected with
  \<open>CutTimeOutOfRange\<close>. Both comparisons of the range test are false on \<open>NaN\<close>:
  for the video \<open>v1\<close> of the example store neither early return is taken, and the
  function goes on to cut the video at \<open>NaN\<close> and to assign the element list. An
  identifier that no element has is rejected as the claim says.
\<close>

theorem cut_time_NaN_passes_checks:
  "cutTimelineElement_checks store_example ''v1'' NaN = Inr video_example \<and>
   cutTimelineElement_checks store_example ''zz'' NaN = Inl (ElementNotFound ''zz'')"
  by (simp add: cutTimelineElement_checks_def store_example_def video_example_def
      audio_example_def text_example_def)

section \<open>Source times of the two clips\<close>

text \<open>
  An audio clip of 10000 ms that plays its source from 0, cut at 4000 in the arithmetic
  of doubles: both clips keep the source duration 10000, so the durations add up to
  20000, and the second clip starts in the source at 4000, not at the end of the first
  clip's source span.
\<close>

theorem audio_cut_sourceDuration_counterexample:
  "clipSourceDuration audio_example = Some 10000 \<and>
   clipSourceDuration (fst (cutClips round_double audio_example 4000 ''a2'')) = Some 10000 \<and>
   clipSourceDuration (snd (cutClips round_double audio_example 4000 ''a2'')) = Some 10000 \<and>
   (10000::real) + 10000 \<noteq> 10000 \<and>
   clipSourceStartTime (fst (cutClips round_double audio_example 4000 ''a2'')) = Some 0 \<and>
   clipSourceStartTime (snd (cutClips round_double audio_example 4000 ''a2'')) = Some 4000 \<and>
   (4000::real) \<noteq> 0 + 10000"
  by (simp add: cut_defs audio_example_def round_double_int)

text \<open>
  C3, as the code has it, with the arithmetic read exactly, which is what a property up
  to floating rounding says. The element carries properties with a source start \<open>x\<close> and a
  source duration \<open>d\<close> other than zero, and the cut time lies strictly inside its time
  frame. For a video the source durations of the two clips add up to \<open>d\<close>, the first
  clip starts in the source at \<open>x\<close> and the second where the first one's source span
  ends. For an audio element the cut assigns the source start only: \<open>x\<close> to the first
  clip, \<open>x\<close> plus the cut position to the second; both clips keep the source duration
  \<open>d\<close> of the original.
\<close>

theorem media_cut_source_times:
  assumes "tf_start (timeFrame element) < cutTime"
    and "cutTime < tf_end (timeFrame element)"
    and "properties element = Some p"
    and "sourceStartTime p = Some x"
    and "sourceDuration p = Some d"
    and "d \<noteq> 0"
  shows "(el_type element = ''video'' \<longrightarrow>
           (\<exists>a b. clipSourceDuration (fst (cutClips exact element cutTime newId)) = Some a \<and>
                  clipSourceDuration (snd (cutClips exact element cutTime newId)) = Some b \<and>
                  a + b = d \<and>
                  clipSourceStartTime (fst (cutClips exact element cutTime newId)) = Some x \<and>
                  clipSourceStartTime (snd (cutClips exact element cutTime newId)) = Some (x + a))) \<and>
         (el_type element = ''audio'' \<longrightarrow>
            clipSourceStartTime (fst (cutClips exact element cutTime newId)) = Some x \<and>
            clipSourceStartTime (snd (cutClips exact element cutTime newId)) =
              Some (x + (cutTime - tf_start (timeFrame element))) \<and>
            clipSourceDuration (fst (cutClips exact element cutTime newId)) = Some d \<and>
            clipSourceDuration (snd (cutClips exact element cutTime newId)) = Some d)"
proof (rule conjI; rule impI)
  assume v: "el_type element = ''video''"
  show "\<exists>a b. clipSourceDuration (fst (cutClips exact element cutTime newId)) = Some a \<and>
                  clipSourceDuration (snd (cutClips exact element cutTime newId)) = Some b \<and>
                  a + b = d \<and>
                  clipSourceStartTime (fst (cutClips exact element cutTime newId)) = Some x \<and>
                  clipSourceStartTime (snd (cutClips exact element cutTime newId)) = Some (x + a)"
    using assms(3-6) v by (simp add: cut_defs Let_def)
next
  assume a: "el_type element = ''audio''"
  show "clipSourceStartTime (fst (cutClips exact element cutTime newId)) = Some x \<and>
            clipSourceStartTime (snd (cutClips exact element cutTime newId)) =
              Some (x + (cutTime - tf_start (timeFrame element))) \<and>
            clipSourceDuration (fst (cutClips exact element cutTime newId)) = Some d \<and>
            clipSourceDuration (snd (cutClips exact element cutTime newId)) = Some d"
    using assms(3-6) a by (simp add: cut_defs Let_def)
qed

theorem media_cut_source_times_witness:
  "tf_start (timeFrame video_example) < 4000 \<and> 4000 < tf_end (timeFrame video_example) \<and>
   properties video_example =
     Some \<lparr>sourceStartTime = Some 0, sourceDuration = Some 10000, words = None\<rparr> \<and>
   (10000::real) \<noteq> 0 \<and> el_type video_example = ''video'' \<and>
   (\<exists>a b. clipSourceDuration (fst (cutClips exact video_example 4000 ''v1b'')) = Some a \<and>
          clipSourceDuration (snd (cutClips exact video_example 4000 ''v1b'')) = Some b \<and>
          a + b = 10000 \<and>
          clipSourceStartTime (fst (cutClips exact video_example 4000 ''v1b'')) = Some 0 \<and>
          clipSourceStartTime (snd (cutClips exact video_example 4000 ''v1b'')) = Some (0 + a)) \<and>
   tf_start (timeFrame audio_example) < 4000 \<and> 4000 < tf_end (timeFrame audio_example) \<and>
   properties audio_example =
     Some \<lparr>sourceStartTime = Some 0, sourceDuration = Some 10000, words = None\<rparr> \<and>
   el_type audio_example = ''audio'' \<and>
   clipSourceStartTime (fst (cutClips exact audio_example 4000 ''a2'')) = Some 0 \<and>
   clipSourceStartTime (snd (cutClips exact audio_example 4000 ''a2'')) =
     Some (0 + (4000 - tf_start (timeFrame audio_example))) \<and>
   clipSourceDuration (fst (cutClips exact audio_example 4000 ''a2'')) = Some 10000 \<and>
   clipSourceDuration (snd (cutClips exact audio_example 4000 ''a2'')) = Some 10000"
proof -
  let ?p = "\<lparr>sourceStartTime = Some 0, sourceDuration = Some (10000::real), words = None\<rparr>"
  have v1: "tf_start (timeFrame video_example) < 4000"
    and v2: "4000 < tf_end (timeFrame video_example)"
    and v3: "properties video_example = Some ?p"
    and v4: "el_type video_example = ''video''"
    by (simp_all add: video_example_def)
  have a1: "tf_start (timeFrame audio_example) < 4000"
    and a2: "4000 < tf_end (timeFrame audio_example)"
    and a3: "properties audio_example = Some ?p"
    and a4: "el_type audio_example = ''audio''"
    by (simp_all add: audio_example_def)
  have p1: "sourceStartTime ?p = Some 0" and p2: "sourceDuration ?p = Some 10000"
    and p3: "(10000::real) \<noteq> 0"
    by simp_all
  from media_cut_source_times [OF v1 v2 v3 p1 p2 p3, of "''v1b''"]
    media_cut_source_times [OF a1 a2 a3 p1 p2 p3, of "''a2''"]
    v1 v2 v3 v4 a1 a2 a3 a4 p3
  show ?thesis by blast
qed

text \<open>
  C7, with the arithmetic read exactly. For a video whose properties carry a source start
  \<open>x\<close> and a source duration \<open>d\<close> other than zero, cut strictly inside its time
  frame, the source is divided in proportion: with \<open>cutPosition = cutTime - start\<close> and
  \<open>sourceTimeAtCut = x + (cutPosition / elementDuration) * d\<close>, the first clip has the
  source start \<open>x\<close> and the source duration \<open>sourceTimeAtCut - x\<close>, the second has the
  source start \<open>sourceTimeAtCut\<close> and what remains of \<open>d\<close>. The video of 10000 ms with
  source start 0 and source duration 10000, cut at 4000, gives a first clip of source
  duration 4000 and a second clip that starts at 4000 and has source duration 6000.
\<close>

theorem video_cut_linear_remap:
  "(el_type element = ''video'' \<and> properties element = Some p \<and>
    sourceStartTime p = Some x \<and> sourceDuration p = Some d \<and> d \<noteq> 0 \<and>
    tf_start (timeFrame element) < cutTime \<and> cutTime < tf_end (timeFrame element) \<longrightarrow>
    (let cutPosition = cutTime - tf_start (timeFrame element);
         elementDuration = tf_end (timeFrame element) - tf_start (timeFrame element);
         sourceTimeAtCut = x + (cutPosition / elementDuration) * d
     in clipSourceStartTime (fst (cutClips exact element cutTime newId)) = Some x \<and>
        clipSourceDuration (fst (cutClips exact element cutTime newId)) = Some (sourceTimeAtCut - x) \<and>
        clipSourceStartTime (snd (cutClips exact element cutTime newId)) = Some sourceTimeAtCut \<and>
        clipSourceDuration (snd (cutClips exact element cutTime newId)) =
          Some (d - (sourceTimeAtCut - x)))) \<and>
   clipSourceDuration (fst (cutClips exact video_example 4000 newId)) = Some 4000 \<and>
   clipSourceStartTime (snd (cutClips exact video_example 4000 newId)) = Some 4000 \<and>
   clipSourceDuration (snd (cutClips exact video_example 4000 newId)) = Some 6000"
proof (rule conjI, rule impI)
  assume "el_type element = ''video'' \<and> properties element = Some p \<and>
    sourceStartTime p = Some x \<and> sourceDuration p = Some d \<and> d \<noteq> 0 \<and>
    tf_start (timeFrame element) < cutTime \<and> cutTime < tf_end (timeFrame element)"
  then show "let cutPosition = cutTime - tf_start (timeFrame element);
         elementDuration = tf_end (timeFrame element) - tf_start (timeFrame element);
         sourceTimeAtCut = x + (cutPosition / elementDuration) * d
     in clipSourceStartTime (fst (cutClips exact element cutTime newId)) = Some x \<and>
        clipSourceDuration (fst (cutClips exact element cutTime newId)) = Some (sourceTimeAtCut - x) \<and>
        clipSourceStartTime (snd (cutClips exact element cutTime newId)) = Some sourceTimeAtCut \<and>
        clipSourceDuration (snd (cutClips exact element cutTime newId)) =
          Some (d - (sourceTimeAtCut - x))"
    by (simp add: cut_defs Let_def)
next
  show "clipSourceDuration (fst (cutClips exact video_example 4000 newId)) = Some 4000 \<and>
   clipSourceStartTime (snd (cutClips exact video_example 4000 newId)) = Some 4000 \<and>
   clipSourceDuration (snd (cutClips exact video_example 4000 newId)) = Some 6000"
    by (simp add: cut_defs video_example_def)
qed

theorem video_cut_linear_remap_witness:
  "el_type video_example = ''video'' \<and>
   properties video_example =
     Some \<lparr>sourceStartTime = Some 0, sourceDuration = Some 10000, words = None\<rparr> \<and>
   (10000::real) \<noteq> 0 \<and>
   tf_start (timeFrame video_example) < 2500 \<and> 2500 < tf_end (timeFrame video_example) \<and>
   clipSourceStartTime (fst (cutClips exact video_example 2500 ''v1b'')) = Some 0 \<and>
   clipSourceDuration (fst (cutClips exact video_example 2500 ''v1b'')) = Some 2500 \<and>
   clipSourceStartTime (snd (cutClips exact video_example 2500 ''v1b'')) = Some 2500 \<and>
   clipSourceDuration (snd (cutClips exact video_example 2500 ''v1b'')) = Some 7500"
proof -
  let ?p = "\<lparr>sourceStartTime = Some 0, sourceDuration = Some (10000::real), words = None\<rparr>"
  have h: "el_type video_example = ''video'' \<and> properties video_example = Some ?p \<and>
    sourceStartTime ?p = Some 0 \<and> sourceDuration ?p = Some 10000 \<and> (10000::real) \<noteq> 0 \<and>
    tf_start (timeFrame video_example) < 2500 \<and> 2500 < tf_end (timeFrame video_example)"
    by (simp add: video_example_def)
  have t: "tf_start (timeFrame video_example) = 0" "tf_end (timeFrame video_example) = 10000"
    by (simp_all add: video_example_def)
  from video_cut_linear_remap [of video_example ?p 0 10000 2500 "''v1b''"] h
  have "let cutPosition = 2500 - tf_start (timeFrame video_example);
         elementDuration = tf_end (timeFrame video_example) - tf_start (timeFrame video_example);
         sourceTimeAtCut = 0 + (cutPosition / elementDuration) * 10000
     in clipSourceStartTime (fst (cutClips exact video_example 2500 ''v1b'')) = Some 0 \<and>
        clipSourceDuration (fst (cutClips exact video_example 2500 ''v1b'')) =
          Some (sourceTimeAtCut - 0) \<and>
        clipSourceStartTime (snd (cutClips exact video_example 2500 ''v1b'')) = Some sourceTimeAtCut \<and>
        clipSourceDuration (snd (cutClips exact video_example 2500 ''v1b'')) =
          Some (10000 - (sourceTimeAtCut - 0))"
    by blast
  then have "clipSourceStartTime (fst (cutClips exact video_example 2500 ''v1b'')) = Some 0 \<and>
   clipSourceDuration (fst (cutClips exact video_example 2500 ''v1b'')) = Some 2500 \<and>
   clipSourceStartTime (snd (cutClips exact video_example 2500 ''v1b'')) = Some 2500 \<and>
   clipSourceDuration (snd (cutClips exact video_example 2500 ''v1b'')) = Some 7500"
    by (simp add: t Let_def)
  with h show ?thesis by blast
qed

text \<open>
  Whatever the rounding, the clips of a video hold the expressions of the source, each
  operation rounded.
\<close>

lemma video_cut_fl:
  assumes "el_type element = ''video''"
    and "properties element = Some p"
    and "sourceStartTime p = Some x"
    and "sourceDuration p = Some d"
    and "d \<noteq> 0"
  shows "clipSourceStartTime (fst (cutClips fl element cutTime newId)) = Some x \<and>
    clipSourceDuration (fst (cutClips fl element cutTime newId)) =
      Some (fl (fl (x + fl (fl (fl (cutTime - tf_start (timeFrame element)) /
                 fl (tf_end (timeFrame element) - tf_start (timeFrame element))) * d)) - x)) \<and>
    clipSourceStartTime (snd (cutClips fl element cutTime newId)) =
      Some (fl (x + fl (fl (fl (cutTime - tf_start (timeFrame element)) /
                 fl (tf_end (timeFrame element) - tf_start (timeFrame element))) * d))) \<and>
    clipSourceDuration (snd (cutClips fl element cutTime newId)) =
      Some (fl (d - fl (fl (x + fl (fl (fl (cutTime - tf_start (timeFrame element)) /
                 fl (tf_end (timeFrame element) - tf_start (timeFrame element))) * d)) - x)))"
  using assms by (simp add: cut_defs Let_def)

text \<open>
  The video of the specification in the arithmetic of doubles: \<open>4000 / 10000\<close> is
  rounded to the double nearest 0.4, its product with 10000 is rounded back to 4000, and
  the clips have the source times 4000, 4000 and 6000 of the exact reading.
\<close>

lemma two_fifths_double:
  "round_double (4000 / 10000) = 3602879701896397 / 9007199254740992"
  by (subst round_double_at [where e = "- 2"])
     (simp_all add: pow2_def round_half_even_def Let_def)

lemma two_fifths_of_10000:
  "round_double (3602879701896397 / 9007199254740992 * 10000) = 4000"
  by (subst round_double_at [where e = "11"])
     (simp_all add: pow2_def round_half_even_def Let_def)

lemma video_cut_spec_example:
  "clipSourceStartTime (fst (cutClips round_double video_example 4000 newId)) = Some 0 \<and>
   clipSourceDuration (fst (cutClips round_double video_example 4000 newId)) = Some 4000 \<and>
   clipSourceStartTime (snd (cutClips round_double video_example 4000 newId)) = Some 4000 \<and>
   clipSourceDuration (snd (cutClips round_double video_example 4000 newId)) = Some 6000"
proof -
  let ?p = "\<lparr>sourceStartTime = Some 0, sourceDuration = Some (10000::real), words = None\<rparr>"
  have h: "el_type video_example = ''video''" "properties video_example = Some ?p"
    "sourceStartTime ?p = Some 0" "sourceDuration ?p = Some 10000" "(10000::real) \<noteq> 0"
    by (simp_all add: video_example_def)
  have t: "tf_start (timeFrame video_example) = 0" "tf_end (timeFrame video_example) = 10000"
    by (simp_all add: video_example_def)
  have r: "round_double (4000 - 0) = 4000" "round_double (10000 - 0) = 10000"
    "round_double (0 + 4000) = 4000" "round_double (10000 - 4000) = 6000"
    by (simp_all add: round_double_int)
  show ?thesis
    using video_cut_fl [OF h, of round_double 4000 newId]
    by (simp only: t r two_fifths_double two_fifths_of_10000)
qed

section \<open>Words of a subtitle\<close>

text \<open>
  What the text adjustment computes, whatever the rounding: the words are compared with
  \<open>cutTimeAbsolute\<close>, the sum of the element's start and the cut position, and the
  cut position is the difference of the cut time and the element's start.
\<close>

lemma text_cut_words_fl:
  assumes "el_type element = ''text''"
    and "properties element = Some p"
    and "words p = Some ws"
  shows "clipWords (fst (cutClips fl element cutTime newId)) =
      Some (filter (\<lambda>w. w_end w \<le>
          fl (tf_start (timeFrame element) + fl (cutTime - tf_start (timeFrame element)))) ws) \<and>
    clipWords (snd (cutClips fl element cutTime newId)) =
      Some (map (shiftWord fl (fl (cutTime - tf_start (timeFrame element))))
        (filter (\<lambda>w.
          fl (tf_start (timeFrame element) + fl (cutTime - tf_start (timeFrame element)))
            \<le> w_start w) ws))"
proof -
  have sh: "(\<lambda>w. w\<lparr>w_start := fl (w_start w - c), w_end := fl (w_end w - c)\<rparr>) =
      shiftWord fl c" for c
    by (rule ext) (simp add: shiftWord_def)
  show ?thesis
    using assms by (simp add: cut_defs Let_def sh)
qed

text \<open>
  The subtitle of the specification, with the words 0..1000, 1000..2000 and 2500..3500,
  cut at 2200 in the arithmetic of doubles: whole milliseconds are doubles and their sums
  and differences are exact, the first two words go to the first clip and the third,
  moved to 300..1300, to the second.
\<close>

lemma text_cut_spec_example:
  "clipWords (fst (cutClips round_double text_example 2200 newId)) =
     Some [\<lparr>w_text = ''one'', w_start = 0, w_end = 1000\<rparr>,
           \<lparr>w_text = ''two'', w_start = 1000, w_end = 2000\<rparr>] \<and>
   clipWords (snd (cutClips round_double text_example 2200 newId)) =
     Some [\<lparr>w_text = ''three'', w_start = 300, w_end = 1300\<rparr>]"
proof -
  let ?ws = "[\<lparr>w_text = ''one'', w_start = 0, w_end = 1000\<rparr>,
           \<lparr>w_text = ''two'', w_start = 1000, w_end = 2000\<rparr>,
           \<lparr>w_text = ''three'', w_start = 2500, w_end = 3500\<rparr>]"
  let ?p = "\<lparr>sourceStartTime = None, sourceDuration = None, words = Some ?ws\<rparr>"
  have h: "el_type text_example = ''text''" "properties text_example = Some ?p"
    "words ?p = Some ?ws"
    by (simp_all add: text_example_def)
  have t: "tf_start (timeFrame text_example) = 0" by (simp add: text_example_def)
  show ?thesis
    using text_cut_words_fl [OF h, of round_double 2200 newId]
    by (simp add: t shiftWord_def round_double_int)
qed

text \<open>
  The subtitle \<open>t3\<close> starts at 0.3 and its one word starts at 0.9. Cut at 0.9, the
  cut position is the double next above 0.6 and \<open>cutTimeAbsolute\<close> the double next above
  0.9.
\<close>

lemma boundary_cutPosition:
  "round_double (d0_9 - d0_3) = 5404319552844596 / 9007199254740992"
  by (subst round_double_at [where e = "- 1"])
     (simp_all add: d0_3_def d0_9_def pow2_def round_half_even_def Let_def)

lemma boundary_cutTimeAbsolute:
  "round_double (d0_3 + 5404319552844596 / 9007199254740992) =
   8106479329266894 / 9007199254740992"
  by (subst round_double_at [where e = "- 1"])
     (simp_all add: d0_3_def pow2_def round_half_even_def Let_def)

text \<open>
  C4, in the arithmetic of doubles. The claim sends a word that starts at or after the
  cut time to the second clip. The word of \<open>t3\<close> starts at the cut time 0.9, which
  lies strictly inside the element, and the program compares its start with
  \<open>cutTimeAbsolute\<close>, one unit in the last place above 0.9: the word is in neither
  clip.
\<close>

theorem word_at_cut_time_dropped:
  "el_type boundary_example = ''text'' \<and>
   clipWords boundary_example =
     Some [\<lparr>w_text = ''late'', w_start = d0_9, w_end = 3 / 2\<rparr>] \<and>
   tf_start (timeFrame boundary_example) < d0_9 \<and>
   d0_9 < tf_end (timeFrame boundary_example) \<and>
   clipWords (fst (cutClips round_double boundary_example d0_9 ''t4'')) = Some [] \<and>
   clipWords (snd (cutClips round_double boundary_example d0_9 ''t4'')) = Some []"
proof -
  let ?ws = "[\<lparr>w_text = ''late'', w_start = d0_9, w_end = 3 / 2\<rparr>]"
  let ?p = "\<lparr>sourceStartTime = None, sourceDuration = None, words = Some ?ws\<rparr>"
  have h: "el_type boundary_example = ''text''" "properties boundary_example = Some ?p"
    "words ?p = Some ?ws"
    by (simp_all add: boundary_example_def)
  have t: "tf_start (timeFrame boundary_example) = d0_3"
    "tf_end (timeFrame boundary_example) = 2"
    by (simp_all add: boundary_example_def)
  have cta: "round_double (d0_3 + round_double (d0_9 - d0_3)) =
      8106479329266894 / 9007199254740992"
    by (simp only: boundary_cutPosition boundary_cutTimeAbsolute)
  have "clipWords (fst (cutClips round_double boundary_example d0_9 ''t4'')) =
      Some (filter (\<lambda>w. w_end w \<le> 8106479329266894 / 9007199254740992) ?ws)"
    and "clipWords (snd (cutClips round_double boundary_example d0_9 ''t4'')) =
      Some (map (shiftWord round_double (round_double (d0_9 - d0_3)))
        (filter (\<lambda>w. 8106479329266894 / 9007199254740992 \<le> w_start w) ?ws))"
    using text_cut_words_fl [OF h, of round_double d0_9 "''t4''"]
    by (simp_all only: t cta)
  then have "clipWords (fst (cutClips round_double boundary_example d0_9 ''t4'')) = Some []"
    and "clipWords (snd (cutClips round_double boundary_example d0_9 ''t4'')) = Some []"
    by (simp_all add: d0_9_def)
  moreover have "clipWords boundary_example = Some ?ws"
    by (simp add: clipWords_def boundary_example_def)
  moreover have "tf_start (timeFrame boundary_example) < d0_9"
    "d0_9 < tf_end (timeFrame boundary_example)"
    by (simp_all add: t d0_3_def d0_9_def)
  ultimately show ?thesis using h(1) by blast
qed

text \<open>
  C8, at a word of no length on the cut point. The claim puts no word in both clips. The
  word \<open>-\<close> of the subtitle \<open>t2\<close> starts and ends at 2200; cut at 2200, it ends at
  or before the cut time and starts at or after it, both filters keep it, and it is in
  the first clip as it was and in the second clip moved to 0. The times are whole
  milliseconds, so no rounding takes part.
\<close>

theorem zero_length_word_in_both_clips:
  "clipWords pause_example =
     Some [\<lparr>w_text = ''one'', w_start = 0, w_end = 1000\<rparr>,
           \<lparr>w_text = ''-'', w_start = 2200, w_end = 2200\<rparr>,
           \<lparr>w_text = ''three'', w_start = 2500, w_end = 3500\<rparr>] \<and>
   tf_start (timeFrame pause_example) < 2200 \<and> 2200 < tf_end (timeFrame pause_example) \<and>
   clipWords (fst (cutClips round_double pause_example 2200 ''t5'')) =
     Some [\<lparr>w_text = ''one'', w_start = 0, w_end = 1000\<rparr>,
           \<lparr>w_text = ''-'', w_start = 2200, w_end = 2200\<rparr>] \<and>
   clipWords (snd (cutClips round_double pause_example 2200 ''t5'')) =
     Some [\<lparr>w_text = ''-'', w_start = 0, w_end = 0\<rparr>,
           \<lparr>w_text = ''three'', w_start = 300, w_end = 1300\<rparr>]"
proof -
  let ?ws = "[\<lparr>w_text = ''one'', w_start = 0, w_end = 1000\<rparr>,
           \<lparr>w_text = ''-'', w_start = 2200, w_end = 2200\<rparr>,
           \<lparr>w_text = ''three'', w_start = 2500, w_end = 3500\<rparr>]"
  let ?p = "\<lparr>sourceStartTime = None, sourceDuration = None, words = Some ?ws\<rparr>"
  have h: "el_type pause_example = ''text''" "properties pause_example = Some ?p"
    "words ?p = Some ?ws"
    by (simp_all add: pause_example_def)
  have t: "tf_start (timeFrame pause_example) = 0" "tf_end (timeFrame pause_example) = 3500"
    by (simp_all add: pause_example_def)
  have "clipWords (fst (cutClips round_double pause_example 2200 ''t5'')) =
     Some [\<lparr>w_text = ''one'', w_start = 0, w_end = 1000\<rparr>,
           \<lparr>w_text = ''-'', w_start = 2200, w_end = 2200\<rparr>]"
    and "clipWords (snd (cutClips round_double pause_example 2200 ''t5'')) =
     Some [\<lparr>w_text = ''-'', w_start = 0, w_end = 0\<rparr>,
           \<lparr>w_text = ''three'', w_start = 300, w_end = 1300\<rparr>]"
    using text_cut_words_fl [OF h, of round_double 2200 "''t5''"]
    by (simp_all add: t shiftWord_def round_double_int round_double_zero)
  moreover have "clipWords pause_example = Some ?ws"
    by (simp add: clipWords_def pause_example_def)
  ultimately show ?thesis by (simp add: t)
qed

section \<open>The ghost state machine\<close>

lemmas ghost_defs = startFileGhostDragUtil_def updateFileGhostUtil_def resetGhost_def
  finishFileGhostDragUtil_def

text \<open>
  A drag is under way and the commit callback throws: the exception leaves
  \<open>finishFileGhostDragUtil\<close>, and the ghost is still dragging, with its file and its
  marker position.
\<close>

theorem finish_drag_throw_counterexample:
  "isFileDragging (ghostState dragging_example) \<and>
   has_thrown (finishFileGhostDragUtil dragging_example 1200 0 (Some failingCommit)) \<and>
   isFileDragging (ghostState (final_store
     (finishFileGhostDragUtil dragging_example 1200 0 (Some failingCommit)))) \<and>
   fileData (ghostState (final_store
     (finishFileGhostDragUtil dragging_example 1200 0 (Some failingCommit)))) =
     Some ''intro.mp4'' \<and>
   ghostMarkerPosition (ghostState (final_store
     (finishFileGhostDragUtil dragging_example 1200 0 (Some failingCommit)))) = Some 1200"
  by (simp add: ghost_defs dragging_example_def store_example_def idle_ghost_def
      failingCommit_def)

text \<open>
  C5, as the code has it. Called while no drag is under way, \<open>finishFileGhostDragUtil\<close>
  returns the store as it is and does not call the callback. Called during a drag with no
  callback, or with a callback that returns, it returns with the ghost reset: not
  dragging, no candidate element, no file, no marker position, no target row, the row not
  incompatible; the reset leaves the element list as the callback made it. When the
  callback throws, the call ends with that exception and the store as the callback left
  it.
\<close>

theorem finish_drag_resets:
  "(\<not> isFileDragging (ghostState store) \<longrightarrow>
      finishFileGhostDragUtil store finalPosition rowIndex callback = Returns store) \<and>
   (isFileDragging (ghostState store) \<and> callback = None \<longrightarrow>
      finishFileGhostDragUtil store finalPosition rowIndex callback =
        Returns (resetGhost store)) \<and>
   (\<forall>cb s. isFileDragging (ghostState store) \<and> callback = Some cb \<and>
           cb finalPosition rowIndex store = Returns s \<longrightarrow>
      finishFileGhostDragUtil store finalPosition rowIndex callback =
        Returns (resetGhost s)) \<and>
   (\<forall>cb e s. isFileDragging (ghostState store) \<and> callback = Some cb \<and>
           cb finalPosition rowIndex store = Throws e s \<longrightarrow>
      finishFileGhostDragUtil store finalPosition rowIndex callback = Throws e s) \<and>
   (\<forall>s. \<not> isFileDragging (ghostState (resetGhost s)) \<and>
        fileGhostElement (ghostState (resetGhost s)) = None \<and>
        fileData (ghostState (resetGhost s)) = None \<and>
        ghostMarkerPosition (ghostState (resetGhost s)) = None \<and>
        dragOverRowIndex (ghostState (resetGhost s)) = None \<and>
        \<not> isIncompatibleRow (ghostState (resetGhost s)) \<and>
        editorElements (resetGhost s) = editorElements s)"
  by (simp add: ghost_defs)

theorem finish_drag_resets_witness:
  "isFileDragging (ghostState dragging_example) \<and>
   finishFileGhostDragUtil dragging_example 1200 0 (Some appendingCommit) =
     Returns (resetGhost (final_store (appendingCommit 1200 0 dragging_example))) \<and>
   finishFileGhostDragUtil dragging_example 1200 0 None =
     Returns (resetGhost dragging_example) \<and>
   ghostState (resetGhost dragging_example) = idle_ghost \<and>
   \<not> isFileDragging (ghostState store_example) \<and>
   finishFileGhostDragUtil store_example 1200 0 (Some appendingCommit) =
     Returns store_example"
proof -
  have d: "isFileDragging (ghostState dragging_example)"
    by (simp add: ghost_defs dragging_example_def store_example_def idle_ghost_def)
  have i: "\<not> isFileDragging (ghostState store_example)"
    by (simp add: store_example_def idle_ghost_def)
  have c: "appendingCommit 1200 0 dragging_example =
      Returns (final_store (appendingCommit 1200 0 dragging_example))"
    by (simp add: appendingCommit_def)
  have r: "ghostState (resetGhost dragging_example) = idle_ghost"
    by (simp add: ghost_defs dragging_example_def store_example_def idle_ghost_def)
  from finish_drag_resets [of dragging_example 1200 0 "Some appendingCommit"] d c
  have a: "finishFileGhostDragUtil dragging_example 1200 0 (Some appendingCommit) =
     Returns (resetGhost (final_store (appendingCommit 1200 0 dragging_example)))"
    by blast
  from finish_drag_resets [of dragging_example 1200 0 None] d
  have b: "finishFileGhostDragUtil dragging_example 1200 0 None =
     Returns (resetGhost dragging_example)"
    by blast
  from finish_drag_resets [of store_example 1200 0 "Some appendingCommit"] i
  have e: "finishFileGhostDragUtil store_example 1200 0 (Some appendingCommit) =
     Returns store_example"
    by blast
  from d a b r i e show ?thesis by blast
qed

text \<open>
  A drag of \<open>intro.mp4\<close> is under way, its candidate at 1200 on row 0; a second
  \<open>startFileGhostDragUtil\<close> with \<open>voice.mp3\<close> replaces the file and the candidate.
\<close>

theorem start_drag_twice_counterexample:
  "isFileDragging (ghostState dragging_example) \<and>
   fileData (ghostState dragging_example) = Some ''intro.mp4'' \<and>
   fileGhostElement (ghostState dragging_example) =
     Some \<lparr>ghost_type = ''video'', duration = 5000,
           ghost_timeFrame = \<lparr>tf_start = 1200, tf_end = 6200\<rparr>, ghost_row = Some 0\<rparr> \<and>
   fileData (ghostState (startFileGhostDragUtil dragging_example ''voice.mp3'' ''audio'' 3000)) =
     Some ''voice.mp3'' \<and>
   fileGhostElement
     (ghostState (startFileGhostDragUtil dragging_example ''voice.mp3'' ''audio'' 3000)) =
     Some \<lparr>ghost_type = ''audio'', duration = 3000,
           ghost_timeFrame = \<lparr>tf_start = 0, tf_end = 3000\<rparr>, ghost_row = None\<rparr>"
  by (simp add: ghost_defs dragging_example_def store_example_def idle_ghost_def)

text \<open>
  C6, as the code has it. From any state of the ghost, dragging or not,
  \<open>startFileGhostDragUtil\<close> leaves the ghost dragging, with the file of this call and a
  new candidate element of the given type and duration that starts at 0. The marker
  position, the target row, the incompatibility flag and the element list stay as they
  were. The call changes nothing exactly when the ghost was already dragging this file
  with exactly this candidate.
\<close>

theorem start_drag_overwrites:
  "isFileDragging (ghostState (startFileGhostDragUtil store file elementType defaultDuration)) \<and>
   fileData (ghostState (startFileGhostDragUtil store file elementType defaultDuration)) =
     Some file \<and>
   fileGhostElement (ghostState (startFileGhostDragUtil store file elementType defaultDuration)) =
     Some \<lparr>ghost_type = elementType, duration = defaultDuration,
           ghost_timeFrame = \<lparr>tf_start = 0, tf_end = defaultDuration\<rparr>, ghost_row = None\<rparr> \<and>
   ghostMarkerPosition
     (ghostState (startFileGhostDragUtil store file elementType defaultDuration)) =
     ghostMarkerPosition (ghostState store) \<and>
   dragOverRowIndex (ghostState (startFileGhostDragUtil store file elementType defaultDuration)) =
     dragOverRowIndex (ghostState store) \<and>
   isIncompatibleRow (ghostState (startFileGhostDragUtil store file elementType defaultDuration)) =
     isIncompatibleRow (ghostState store) \<and>
   editorElements (startFileGhostDragUtil store file elementType defaultDuration) =
     editorElements store \<and>
   (startFileGhostDragUtil store file elementType defaultDuration = store) =
     (isFileDragging (ghostState store) \<and> fileData (ghostState store) = Some file \<and>
      fileGhostElement (ghostState store) =
        Some \<lparr>ghost_type = elementType, duration = defaultDuration,
              ghost_timeFrame = \<lparr>tf_start = 0, tf_end = defaultDuration\<rparr>,
              ghost_row = None\<rparr>)"
proof -
  let ?g = "\<lparr>ghost_type = elementType, duration = defaultDuration,
           ghost_timeFrame = \<lparr>tf_start = 0, tf_end = defaultDuration\<rparr>, ghost_row = None\<rparr>"
  let ?s = "startFileGhostDragUtil store file elementType defaultDuration"
  have fields: "isFileDragging (ghostState ?s)" "fileData (ghostState ?s) = Some file"
    "fileGhostElement (ghostState ?s) = Some ?g"
    "ghostMarkerPosition (ghostState ?s) = ghostMarkerPosition (ghostState store)"
    "dragOverRowIndex (ghostState ?s) = dragOverRowIndex (ghostState store)"
    "isIncompatibleRow (ghostState ?s) = isIncompatibleRow (ghostState store)"
    "editorElements ?s = editorElements store"
    by (simp_all add: ghost_defs)
  have "(?s = store) =
     (isFileDragging (ghostState store) \<and> fileData (ghostState store) = Some file \<and>
      fileGhostElement (ghostState store) = Some ?g)"
  proof
    assume "?s = store"
    with fields(1-3) show "isFileDragging (ghostState store) \<and>
      fileData (ghostState store) = Some file \<and> fileGhostElement (ghostState store) = Some ?g"
      by simp
  next
    assume a: "isFileDragging (ghostState store) \<and> fileData (ghostState store) = Some file \<and>
      fileGhostElement (ghostState store) = Some ?g"
    have "(ghostState store)\<lparr>isFileDragging := True, fileData := Some file,
        fileGhostElement := Some ?g\<rparr> = ghostState store"
      using a by (intro ghostState.equality) simp_all
    then show "?s = store"
      by (simp add: startFileGhostDragUtil_def)
  qed
  with fields show ?thesis by blast
qed

lemma ghost_step_keeps_elements:
  "callback_keeps_elements g \<Longrightarrow> editorElements (ghost_step store g) = editorElements store"
proof (cases g)
  case (FinishDrag p r cbo)
  assume k: "callback_keeps_elements g"
  show ?thesis
  proof (cases cbo)
    case None
    with FinishDrag show ?thesis by (simp add: ghost_defs)
  next
    case (Some cb)
    with k FinishDrag have "editorElements (final_store (cb p r store)) = editorElements store"
      by simp
    with Some FinishDrag show ?thesis
      by (cases "cb p r store") (simp_all add: ghost_defs)
  qed
qed (simp_all add: ghost_defs Let_def split: option.splits)

lemma ghost_run_keeps_elements:
  "list_all callback_keeps_elements ops \<Longrightarrow>
   editorElements (ghost_run store ops) = editorElements store"
  by (induction ops arbitrary: store) (simp_all add: ghost_step_keeps_elements)

text \<open>
  C9. \<open>startFileGhostDragUtil\<close> and \<open>updateFileGhostUtil\<close> leave the element list as
  it is, and so does \<open>finishFileGhostDragUtil\<close> without a callback. With a callback,
  the element list after \<open>finishFileGhostDragUtil\<close> is the one the callback left when a
  drag was under way, and the one before the call otherwise. Hence a sequence of gestures
  whose callbacks all keep the element list keeps it: a change of the element list comes
  from a commit callback only.
\<close>

theorem ghost_keeps_elements:
  "editorElements (startFileGhostDragUtil store file elementType defaultDuration) =
     editorElements store \<and>
   editorElements (updateFileGhostUtil store newPosition rowIndex isIncompatible) =
     editorElements store \<and>
   editorElements (final_store (finishFileGhostDragUtil store finalPosition rowIndex None)) =
     editorElements store \<and>
   (\<forall>cb. editorElements
           (final_store (finishFileGhostDragUtil store finalPosition rowIndex (Some cb))) =
         (if isFileDragging (ghostState store)
          then editorElements (final_store (cb finalPosition rowIndex store))
          else editorElements store)) \<and>
   (list_all callback_keeps_elements ops \<longrightarrow>
      editorElements (ghost_run store ops) = editorElements store)"
proof -
  have "editorElements (final_store (finishFileGhostDragUtil store finalPosition rowIndex (Some cb))) =
         (if isFileDragging (ghostState store)
          then editorElements (final_store (cb finalPosition rowIndex store))
          else editorElements store)" for cb
    by (cases "cb finalPosition rowIndex store") (simp_all add: ghost_defs)
  then show ?thesis
    by (simp add: ghost_run_keeps_elements) (simp add: ghost_defs Let_def split: option.splits)
qed


theorem ghost_keeps_elements_witness:
  "list_all callback_keeps_elements
     [StartDrag ''intro.mp4'' ''video'' 5000, UpdatePosition 1200 0 False,
      FinishDrag 1200 0 (Some failingCommit), UpdatePosition 1300 1 True,
      FinishDrag 1300 1 None] \<and>
   editorElements (ghost_run store_example
     [StartDrag ''intro.mp4'' ''video'' 5000, UpdatePosition 1200 0 False,
      FinishDrag 1200 0 (Some failingCommit), UpdatePosition 1300 1 True,
      FinishDrag 1300 1 None]) = editorElements store_example \<and>
   isFileDragging (ghostState dragging_example) \<and>
   editorElements (final_store
     (finishFileGhostDragUtil dragging_example 1200 0 (Some appendingCommit))) =
     editorElements (final_store (appendingCommit 1200 0 dragging_example)) \<and>
   editorElements (final_store (appendingCommit 1200 0 dragging_example)) =
     [video_example, audio_example, text_example,
      \<lparr>el_id = ''v2'', el_type = ''video'',
       timeFrame = \<lparr>tf_start = 1200, tf_end = 6200\<rparr>, row = Some 0, properties = None\<rparr>]"
proof -
  let ?ops = "[StartDrag ''intro.mp4'' ''video'' 5000, UpdatePosition 1200 0 False,
      FinishDrag 1200 0 (Some failingCommit), UpdatePosition 1300 1 True,
      FinishDrag 1300 1 None]"
  have k: "list_all callback_keeps_elements ?ops"
    by (simp add: failingCommit_def)
  have d: "isFileDragging (ghostState dragging_example)"
    by (simp add: ghost_defs dragging_example_def store_example_def idle_ghost_def)
  have e: "editorElements (final_store (appendingCommit 1200 0 dragging_example)) =
     [video_example, audio_example, text_example,
      \<lparr>el_id = ''v2'', el_type = ''video'',
       timeFrame = \<lparr>tf_start = 1200, tf_end = 6200\<rparr>, row = Some 0, properties = None\<rparr>]"
    by (simp add: appendingCommit_def ghost_defs dragging_example_def store_example_def)
  from ghost_keeps_elements [where store = store_example and ops = ?ops] k
  have a: "editorElements (ghost_run store_example ?ops) = editorElements store_example"
    by blast
  from ghost_keeps_elements
    [where store = dragging_example and finalPosition = 1200 and rowIndex = 0] d
  have b: "editorElements (final_store
     (finishFileGhostDragUtil dragging_example 1200 0 (Some appendingCommit))) =
     editorElements (final_store (appendingCommit 1200 0 dragging_example))"
    by simp
  from k a d b e show ?thesis by blast
qed

section \<open>Zoom bounds\<close>







end
